theory Spec2Isabelle
  imports Main "HOL-Library.Word"
begin

section \<open>SentryCircle worker: data model\<close>

text \<open>
  The worker (\<^verbatim>\<open>cloudflare-worker/index.js\<close>) is a set of request handlers over a
  key-value store. JavaScript values that the handlers treat as opaque data (a location, a
  command's data, a stored user object, a token payload) are JSON values; an object is an
  association list in property order. Strings are lists of 8-bit characters, the strings on
  which \<^verbatim>\<open>btoa\<close> is defined; numbers are integers (Unix seconds and milliseconds).
\<close>

datatype json =
    JNull
  | JBool bool
  | JNum int
  | JStr string
  | JArr "json list"
  | JObj "(string \<times> json) list"

text \<open>JavaScript truthiness, as used by \<^verbatim>\<open>!x\<close>, \<^verbatim>\<open>x || y\<close> and \<^verbatim>\<open>if (x)\<close>.\<close>

fun truthy :: "json \<Rightarrow> bool" where
  "truthy JNull = False"
| "truthy (JBool b) = b"
| "truthy (JNum n) = (n \<noteq> 0)"
| "truthy (JStr s) = (s \<noteq> [])"
| "truthy (JArr xs) = True"
| "truthy (JObj kvs) = True"

text \<open>
  A destructured request field is absent (\<^verbatim>\<open>undefined\<close>) or a value; \<^verbatim>\<open>a || b\<close>
  keeps \<open>a\<close> when it is present and truthy.
\<close>

definition truthy_opt :: "json option \<Rightarrow> bool" where
  "truthy_opt v = (case v of None \<Rightarrow> False | Some x \<Rightarrow> truthy x)"

definition or_else :: "json option \<Rightarrow> json \<Rightarrow> json" where
  "or_else v d = (case v of None \<Rightarrow> d | Some x \<Rightarrow> (if truthy x then x else d))"

definition truthy_str :: "string option \<Rightarrow> bool" where
  "truthy_str v = (case v of None \<Rightarrow> False | Some s \<Rightarrow> s \<noteq> [])"

subsection \<open>Records of the store\<close>

record device =
  d_id :: string
  d_name :: string
  d_type :: string
  d_childId :: string
  d_userId :: string
  d_status :: string
  d_createdAt :: int
  d_updatedAt :: int

record child =
  c_id :: string
  c_name :: string
  c_familyId :: string
  c_userId :: "string option"
  c_devices :: "string list"
  c_createdAt :: int
  c_createdBy :: string
  c_updatedAt :: int

record family =
  f_id :: string
  f_name :: string
  f_guardians :: "string list"
  f_children :: "string list"
  f_createdAt :: int
  f_createdBy :: string
  f_updatedAt :: int

record locationData =
  l_deviceId :: string
  l_location :: json
  l_timestamp :: json
  l_batteryLevel :: json

record command =
  m_id :: string
  m_deviceId :: string
  m_type :: string
  m_data :: json
  m_status :: string
  m_createdAt :: int
  m_createdBy :: string
  m_updatedAt :: int

text \<open>
  The key-value namespace \<^verbatim>\<open>SENTRYCIRCLE_KV\<close>. Every key is a fixed prefix followed by
  an id (\<^verbatim>\<open>device:<id>\<close>, \<^verbatim>\<open>child:<id>\<close>, \<^verbatim>\<open>family:<id>\<close>, ...), and no two prefixes
  overlap, so the store is one map per prefix, from the rest of the key to the parsed
  record. \<^verbatim>\<open>get\<close> of a missing key gives \<^verbatim>\<open>null\<close>, here \<open>None\<close>. A stored device,
  child, family, location or command is well formed: it has the fields, of the types, that
  the handler which writes it gives it. A stored user is any JSON value. The caller's
  \<^verbatim>\<open>auth.userId\<close> is a string, and so are the ids and names in a request body; a list of
  guardians in a request is an array of strings.
\<close>

record kv =
  kv_device :: "string \<rightharpoonup> device"
  kv_child :: "string \<rightharpoonup> child"
  kv_family :: "string \<rightharpoonup> family"
  kv_currentLocation :: "string \<rightharpoonup> locationData"
  kv_locationHistory :: "string \<rightharpoonup> locationData list"
  kv_command :: "string \<rightharpoonup> command"
  kv_commands :: "string \<rightharpoonup> string list"
  kv_user :: "string \<rightharpoonup> json"
  kv_userId :: "string \<rightharpoonup> string"

definition empty_kv :: kv where
  "empty_kv = \<lparr> kv_device = Map.empty, kv_child = Map.empty, kv_family = Map.empty,
     kv_currentLocation = Map.empty, kv_locationHistory = Map.empty,
     kv_command = Map.empty, kv_commands = Map.empty,
     kv_user = Map.empty, kv_userId = Map.empty \<rparr>"

subsection \<open>Responses\<close>

datatype body =
    ErrorBody string
  | SuccessBody
  | LocationBody locationData
  | LocationHistoryBody locationData "locationData list"
  | ChildBody child
  | ChildDevicesBody child "device list"
  | CommandBody command
  | FamilyBody family
  | UserTokenBody json string
  | TokenBody string
  | PayloadBody json
  | ExceptionBody

datatype response = Response (status: nat) (body: body)

definition unauthorized :: response where
  "unauthorized = Response 403 (ErrorBody ''Unauthorized'')"

section \<open>Platform functions\<close>

text \<open>
  The worker calls functions of its JavaScript platform: \<^verbatim>\<open>btoa\<close>, \<^verbatim>\<open>atob\<close>,
  \<^verbatim>\<open>JSON.stringify\<close>, \<^verbatim>\<open>JSON.parse\<close>, \<^verbatim>\<open>String.prototype.split\<close>,
  \<^verbatim>\<open>crypto.subtle\<close>, \<^verbatim>\<open>Date.now\<close>. Those with a short definition are written out
  here as the platform defines them; the others are fields of the record \<open>platform\<close>
  below, so that every statement about the worker holds for any behaviour of theirs.
\<close>

subsection \<open>Base64: \<^verbatim>\<open>btoa\<close> and \<^verbatim>\<open>atob\<close>\<close>

text \<open>
  \<^verbatim>\<open>btoa\<close> is the standard Base64 encoding with padding. \<^verbatim>\<open>atob\<close> is the forgiving
  decoder: it drops ASCII whitespace, removes one or two trailing \<^verbatim>\<open>=\<close> when the length
  is a multiple of four, fails on a length of 1 modulo 4 or on a character outside the
  alphabet, and discards the bits left over at the end. Failure (an exception in
  JavaScript) is \<open>None\<close>.
\<close>

definition b64_alphabet :: string where
  "b64_alphabet = ''ABCDEFGHIJKLMNOPQRSTUVWXYZabcdefghijklmnopqrstuvwxyz0123456789+/''"

definition b64_enc :: "nat \<Rightarrow> char" where
  "b64_enc n = b64_alphabet ! (n mod 64)"

fun index_of :: "char \<Rightarrow> string \<Rightarrow> nat option" where
  "index_of c [] = None"
| "index_of c (x # xs) = (if x = c then Some 0 else map_option Suc (index_of c xs))"

definition b64_dec :: "char \<Rightarrow> nat option" where
  "b64_dec c = index_of c b64_alphabet"

fun encode_bytes :: "nat list \<Rightarrow> string" where
  "encode_bytes (a # b # c # rest) =
     [b64_enc (a div 4), b64_enc ((a mod 4) * 16 + b div 16),
      b64_enc ((b mod 16) * 4 + c div 64), b64_enc (c mod 64)] @ encode_bytes rest"
| "encode_bytes [a, b] =
     [b64_enc (a div 4), b64_enc ((a mod 4) * 16 + b div 16),
      b64_enc ((b mod 16) * 4), CHR ''='']"
| "encode_bytes [a] =
     [b64_enc (a div 4), b64_enc ((a mod 4) * 16), CHR ''='', CHR ''='']"
| "encode_bytes [] = []"

definition btoa :: "string \<Rightarrow> string" where
  "btoa s = encode_bytes (map of_char s)"

definition ascii_whitespace :: "char \<Rightarrow> bool" where
  "ascii_whitespace c = (c \<in> set [CHR 0x09, CHR 0x0A, CHR 0x0C, CHR 0x0D, CHR 0x20])"

definition strip_padding :: "string \<Rightarrow> string" where
  "strip_padding s =
     (if length s mod 4 = 0
      then (if 2 \<le> length s \<and> drop (length s - 2) s = ''==''  then take (length s - 2) s
            else if 1 \<le> length s \<and> drop (length s - 1) s = ''='' then take (length s - 1) s
            else s)
      else s)"

fun decode_sextets :: "nat list \<Rightarrow> nat list" where
  "decode_sextets (a # b # c # d # rest) =
     [a * 4 + b div 16, (b mod 16) * 16 + c div 4, (c mod 4) * 64 + d] @ decode_sextets rest"
| "decode_sextets [a, b, c] = [a * 4 + b div 16, (b mod 16) * 16 + c div 4]"
| "decode_sextets [a, b] = [a * 4 + b div 16]"
| "decode_sextets [a] = []"
| "decode_sextets [] = []"

definition atob :: "string \<Rightarrow> string option" where
  "atob data =
     (let d = strip_padding (filter (\<lambda>c. \<not> ascii_whitespace c) data) in
      if length d mod 4 = 1 then None
      else (case those (map b64_dec d) of
              None \<Rightarrow> None
            | Some sextets \<Rightarrow> Some (map char_of (decode_sextets sextets))))"

subsection \<open>\<^verbatim>\<open>JSON.stringify\<close>\<close>

text \<open>
  Numbers print in decimal. A string is quoted, with the escapes of \<^verbatim>\<open>JSON.stringify\<close>
  for the quote, the backslash and the control characters.
\<close>

definition digit_char :: "int \<Rightarrow> char" where
  "digit_char d = ''0123456789abcdef'' ! nat (d mod 16)"

function nat_decimal :: "int \<Rightarrow> string" where
  "nat_decimal n =
     (if n < 10 then [digit_char n] else nat_decimal (n div 10) @ [digit_char (n mod 10)])"
  by pat_completeness auto
termination
  by (relation "measure nat") auto

declare nat_decimal.simps [simp del]

definition int_decimal :: "int \<Rightarrow> string" where
  "int_decimal i = (if i < 0 then CHR ''-'' # nat_decimal (- i) else nat_decimal i)"

definition quote_char :: "char \<Rightarrow> string" where
  "quote_char c =
     (if c = CHR 0x22 then [CHR 0x5C, CHR 0x22]
      else if c = CHR 0x5C then [CHR 0x5C, CHR 0x5C]
      else if c = CHR 0x08 then [CHR 0x5C, CHR ''b'']
      else if c = CHR 0x09 then [CHR 0x5C, CHR ''t'']
      else if c = CHR 0x0A then [CHR 0x5C, CHR ''n'']
      else if c = CHR 0x0C then [CHR 0x5C, CHR ''f'']
      else if c = CHR 0x0D then [CHR 0x5C, CHR ''r'']
      else if (of_char c :: int) < 32
      then [CHR 0x5C, CHR ''u'', CHR ''0'', CHR ''0'',
            digit_char (of_char c div 16), digit_char (of_char c mod 16)]
      else [c])"

definition quote :: "string \<Rightarrow> string" where
  "quote s = [CHR 0x22] @ concat (map quote_char s) @ [CHR 0x22]"

fun join :: "string \<Rightarrow> string list \<Rightarrow> string" where
  "join sep [] = []"
| "join sep [x] = x"
| "join sep (x # y # ys) = x @ sep @ join sep (y # ys)"

fun stringify :: "json \<Rightarrow> string" where
  "stringify JNull = ''null''"
| "stringify (JBool b) = (if b then ''true'' else ''false'')"
| "stringify (JNum n) = int_decimal n"
| "stringify (JStr s) = quote s"
| "stringify (JArr xs) = ''['' @ join '','' (map stringify xs) @ '']''"
| "stringify (JObj kvs) =
     ''{'' @ join '','' (map (\<lambda>(k, v). quote k @ '':'' @ stringify v) kvs) @ ''}''"

subsection \<open>Strings and objects\<close>

text \<open>
  \<^verbatim>\<open>s.split('.')\<close> always gives at least one segment. Reading an array past its end gives
  \<^verbatim>\<open>undefined\<close> (\<open>None\<close>), which \<^verbatim>\<open>atob\<close> and a template string turn into the text
  \<^verbatim>\<open>undefined\<close>.
\<close>

fun split_on :: "char \<Rightarrow> string \<Rightarrow> string list" where
  "split_on sep [] = [[]]"
| "split_on sep (c # cs) =
     (if c = sep then [] # split_on sep cs
      else (case split_on sep cs of
              [] \<Rightarrow> [[c]]
            | seg # segs \<Rightarrow> (c # seg) # segs))"

fun nth_opt :: "'a list \<Rightarrow> nat \<Rightarrow> 'a option" where
  "nth_opt [] n = None"
| "nth_opt (x # xs) 0 = Some x"
| "nth_opt (x # xs) (Suc n) = nth_opt xs n"

definition js_string :: "string option \<Rightarrow> string" where
  "js_string v = (case v of None \<Rightarrow> ''undefined'' | Some s \<Rightarrow> s)"

text \<open>
  \<open>property v k\<close> is \<^verbatim>\<open>v.k\<close> for a value other than \<^verbatim>\<open>null\<close> and a name \<open>k\<close> that no
  array, string, number or boolean has; on \<^verbatim>\<open>null\<close> the access throws, which the callers
  test for first. \<open>obj_put\<close> is the assignment of a property in an object spread or
  literal: an existing key keeps its place. \<open>obj_rest\<close> is the rest of a destructuring
  that takes one key out. \<open>obj_literal\<close> is an object literal some of whose values may be
  \<^verbatim>\<open>undefined\<close>: such a member is left out by \<^verbatim>\<open>JSON.stringify\<close>, the only reader of
  these objects, so it is left out here.
\<close>

fun property :: "json \<Rightarrow> string \<Rightarrow> json option" where
  "property (JObj kvs) k = map_of kvs k"
| "property v k = None"

fun obj_put :: "(string \<times> json) list \<Rightarrow> string \<Rightarrow> json \<Rightarrow> (string \<times> json) list" where
  "obj_put [] k v = [(k, v)]"
| "obj_put ((k', v') # kvs) k v =
     (if k' = k then (k, v) # kvs else (k', v') # obj_put kvs k v)"

definition obj_rest :: "string \<Rightarrow> (string \<times> json) list \<Rightarrow> (string \<times> json) list" where
  "obj_rest k kvs = filter (\<lambda>(k', v). k' \<noteq> k) kvs"

definition obj_literal :: "(string \<times> json option) list \<Rightarrow> (string \<times> json) list" where
  "obj_literal members = List.map_filter (\<lambda>(k, v). map_option (Pair k) v) members"

subsection \<open>The rest of the platform\<close>

text \<open>
  \<open>JWT_SECRET\<close> is the global binding of that name: a plain string (an environment
  variable of the worker) or an HMAC key object. \<open>hmac k d\<close> is the HMAC-SHA256 tag of \<open>d\<close>
  under the key \<open>k\<close>, as a string of bytes. \<open>JSON_parse\<close> gives \<open>None\<close> where
  \<^verbatim>\<open>JSON.parse\<close> throws. \<open>coerced_le v n\<close> is the JavaScript comparison \<^verbatim>\<open>v <= n\<close> for a
  string, array or object \<open>v\<close>. \<open>Date_now\<close> is a time value: a whole number of
  milliseconds, at most 8.64e15 in magnitude, so that the seconds derived from it are exact.
\<close>

datatype secret = SecretString string | SecretKey string

record platform =
  JWT_SECRET :: secret
  hmac :: "string \<Rightarrow> string \<Rightarrow> string"
  JSON_parse :: "string \<Rightarrow> json option"
  coerced_le :: "json \<Rightarrow> int \<Rightarrow> bool"
  Date_now :: int
  randomUUID :: string
  sha256_hex :: "string \<Rightarrow> string"

datatype 'a promise = Resolves 'a | Rejects

definition subtle_sign :: "platform \<Rightarrow> string \<Rightarrow> string promise" where
  "subtle_sign p data =
     (case JWT_SECRET p of
        SecretString s \<Rightarrow> Rejects
      | SecretKey k \<Rightarrow> Resolves (hmac p k data))"

definition subtle_verify :: "platform \<Rightarrow> string \<Rightarrow> string \<Rightarrow> bool promise" where
  "subtle_verify p signature data =
     (case JWT_SECRET p of
        SecretString s \<Rightarrow> Rejects
      | SecretKey k \<Rightarrow> Resolves (signature = hmac p k data))"

definition bytes_of_object :: "'a promise \<Rightarrow> string" where
  "bytes_of_object obj = []"

section \<open>Token service\<close>

text \<open>
  \<^verbatim>\<open>generateJWT(payload, expiresIn = '7d')\<close>. \<open>ExpiresDefault\<close> is the default argument
  \<^verbatim>\<open>'7d'\<close>, which every call in the worker uses. \<open>ExpiresNumber n\<close> is an explicit number
  of seconds, a whole number from 0 to \<open>2\<^sup>3\<^sup>2 - 1\<close>: \<^verbatim>\<open>parseInt\<close> prints such a number in
  plain decimal digits and reads it back unchanged, and its sum with the current time is a
  whole number below \<open>2\<^sup>5\<^sup>3\<close>, which JavaScript's numbers hold exactly. Other arguments (a
  string such as \<^verbatim>\<open>'1h'\<close>, a fraction, a number that prints in exponent notation) are not
  values of the type \<open>expiresIn\<close>.

  \<^verbatim>\<open>crypto.subtle.sign\<close> returns a promise, and the function, which is not \<^verbatim>\<open>async\<close>,
  passes the promise itself to \<^verbatim>\<open>new Uint8Array\<close>: that is \<open>bytes_of_object\<close>, an array
  of no elements for an object that is neither a buffer, an array nor iterable.
\<close>

datatype expiresIn = ExpiresDefault | ExpiresNumber "32 word"

definition seconds_now :: "platform \<Rightarrow> int" where
  "seconds_now p = Date_now p div 1000"

definition lifetime :: "expiresIn \<Rightarrow> int" where
  "lifetime expiresIn =
     (case expiresIn of
        ExpiresDefault \<Rightarrow> 7 * 24 * 60 * 60
      | ExpiresNumber n \<Rightarrow> uint n)"

definition tokenPayload :: "platform \<Rightarrow> (string \<times> json) list \<Rightarrow> expiresIn \<Rightarrow> (string \<times> json) list" where
  "tokenPayload p payload expiresIn =
     (let now = seconds_now p;
          exp = now + lifetime expiresIn
      in obj_put (obj_put payload ''iat'' (JNum now)) ''exp'' (JNum exp))"

definition generateJWT :: "platform \<Rightarrow> (string \<times> json) list \<Rightarrow> expiresIn \<Rightarrow> string" where
  "generateJWT p payload expiresIn =
     (let header = JObj [(''alg'', JStr ''HS256''), (''typ'', JStr ''JWT'')];
          base64Header = btoa (stringify header);
          base64Payload = btoa (stringify (JObj (tokenPayload p payload expiresIn)));
          signature = subtle_sign p (base64Header @ ''.'' @ base64Payload)
      in base64Header @ ''.'' @ base64Payload @ ''.'' @ btoa (bytes_of_object signature))"

text \<open>
  \<^verbatim>\<open>verifyJWT(token)\<close>. Every exception inside it is caught and reported as ``Invalid token
  format'': \<^verbatim>\<open>atob\<close> or \<^verbatim>\<open>JSON.parse\<close> failing, reading \<^verbatim>\<open>exp\<close> of \<^verbatim>\<open>null\<close>, and
  \<^verbatim>\<open>crypto.subtle.verify\<close> rejecting a key that is a plain string. The expiry is tested
  before the signature is looked at. \<open>exp_le\<close> is \<^verbatim>\<open>payload.exp <= now\<close>: a missing \<^verbatim>\<open>exp\<close>
  compares as false, \<^verbatim>\<open>null\<close> as 0, a boolean as 0 or 1.
\<close>

datatype verifyResult = Valid json | Invalid string

fun exp_le :: "platform \<Rightarrow> json option \<Rightarrow> int \<Rightarrow> bool" where
  "exp_le p None now = False"
| "exp_le p (Some (JNum n)) now = (n \<le> now)"
| "exp_le p (Some JNull) now = (0 \<le> now)"
| "exp_le p (Some (JBool b)) now = ((if b then 1 else 0) \<le> now)"
| "exp_le p (Some v) now = coerced_le p v now"

definition invalidFormat :: verifyResult where
  "invalidFormat = Invalid ''Invalid token format''"

definition verifyJWT :: "platform \<Rightarrow> string \<Rightarrow> verifyResult" where
  "verifyJWT p token =
     (let parts = split_on CHR ''.'' token;
          base64Header = nth_opt parts 0;
          base64Payload = nth_opt parts 1;
          signature = nth_opt parts 2
      in case atob (js_string base64Payload) of
           None \<Rightarrow> invalidFormat
         | Some text \<Rightarrow>
            (case JSON_parse p text of
               None \<Rightarrow> invalidFormat
             | Some payload \<Rightarrow>
                 if payload = JNull then invalidFormat
                 else if exp_le p (property payload ''exp'') (seconds_now p)
                 then Invalid ''Token expired''
                 else
                   (case atob (js_string signature) of
                      None \<Rightarrow> invalidFormat
                    | Some sig \<Rightarrow>
                       (case subtle_verify p sig
                               (js_string base64Header @ ''.'' @ js_string base64Payload) of
                          Rejects \<Rightarrow> invalidFormat
                        | Resolves validSignature \<Rightarrow>
                            if \<not> validSignature then Invalid ''Invalid signature''
                            else Valid payload))))"

section \<open>Authentication handlers\<close>

text \<open>
  The request body is taken as parsed: a field is absent (\<open>None\<close>) or a string.
  \<^verbatim>\<open>handleVerify\<close> and \<^verbatim>\<open>handleRefresh\<close> take the \<^verbatim>\<open>token\<close> field.
\<close>

definition handleVerify :: "platform \<Rightarrow> string option \<Rightarrow> response" where
  "handleVerify p tokenField =
     (case tokenField of
        None \<Rightarrow> Response 400 (ErrorBody ''Token is required'')
      | Some token \<Rightarrow>
          if token = [] then Response 400 (ErrorBody ''Token is required'')
          else (case verifyJWT p token of
                  Invalid reason \<Rightarrow> Response 401 (ErrorBody reason)
                | Valid payload \<Rightarrow> Response 200 (PayloadBody payload)))"

definition handleRefresh :: "platform \<Rightarrow> string option \<Rightarrow> response" where
  "handleRefresh p tokenField =
     (case tokenField of
        None \<Rightarrow> Response 400 (ErrorBody ''Token is required'')
      | Some token \<Rightarrow>
          if token = [] then Response 400 (ErrorBody ''Token is required'')
          else (case verifyJWT p token of
                  Invalid reason \<Rightarrow> Response 401 (ErrorBody reason)
                | Valid payload \<Rightarrow>
                    (let newToken = generateJWT p
                           (obj_literal [(''userId'', property payload ''userId''),
                                         (''email'', property payload ''email''),
                                         (''role'', property payload ''role'')])
                           ExpiresDefault
                     in Response 200 (TokenBody newToken))))"

text \<open>
  \<^verbatim>\<open>handleRegister\<close> and \<^verbatim>\<open>handleLogin\<close>. The user object is kept as a JSON object, in the
  order the source writes its properties; the response carries the rest of the object once
  \<^verbatim>\<open>passwordHash\<close> is taken out. \<open>sha256_hex\<close> is the hexadecimal SHA-256 digest of the
  password. A stored user that is \<^verbatim>\<open>null\<close> makes the login throw (status 500); one that
  is not an object has no \<^verbatim>\<open>passwordHash\<close> and is refused.
\<close>

record registerRequest =
  rr_email :: "string option"
  rr_password :: "string option"
  rr_name :: "string option"
  rr_role :: "string option"

definition handleRegister :: "platform \<Rightarrow> kv \<Rightarrow> registerRequest \<Rightarrow> response \<times> kv" where
  "handleRegister p store req =
     (case (rr_email req, rr_password req, rr_name req, rr_role req) of
        (Some email, Some password, Some name, Some role) \<Rightarrow>
          if email = [] \<or> password = [] \<or> name = [] \<or> role = []
          then (Response 400 (ErrorBody ''Missing required fields''), store)
          else
            (case kv_user store email of
               Some existingUser \<Rightarrow> (Response 409 (ErrorBody ''User already exists''), store)
             | None \<Rightarrow>
                 (let hashedPassword = sha256_hex p password;
                      userId = randomUUID p;
                      user = [(''id'', JStr userId), (''email'', JStr email),
                              (''name'', JStr name), (''role'', JStr role),
                              (''passwordHash'', JStr hashedPassword),
                              (''createdAt'', JNum (Date_now p))];
                      store1 = store \<lparr> kv_user := (kv_user store)(email \<mapsto> JObj user) \<rparr>;
                      store2 = store1 \<lparr> kv_userId := (kv_userId store1)(userId \<mapsto> email) \<rparr>;
                      token = generateJWT p
                        [(''userId'', JStr userId), (''email'', JStr email),
                         (''role'', JStr role)] ExpiresDefault;
                      userWithoutPassword = obj_rest ''passwordHash'' user
                  in (Response 200 (UserTokenBody (JObj userWithoutPassword) token), store2)))
      | _ \<Rightarrow> (Response 400 (ErrorBody ''Missing required fields''), store))"

record loginRequest =
  lr_email :: "string option"
  lr_password :: "string option"

definition invalidLogin :: response where
  "invalidLogin = Response 401 (ErrorBody ''Invalid email or password'')"

definition handleLogin :: "platform \<Rightarrow> kv \<Rightarrow> loginRequest \<Rightarrow> response" where
  "handleLogin p store req =
     (case (lr_email req, lr_password req) of
        (Some email, Some password) \<Rightarrow>
          if email = [] \<or> password = []
          then Response 400 (ErrorBody ''Email and password are required'')
          else
            (case kv_user store email of
               None \<Rightarrow> invalidLogin
             | Some user \<Rightarrow>
                 (let hashedPassword = sha256_hex p password in
                  case user of
                    JNull \<Rightarrow> Response 500 ExceptionBody
                  | JObj kvs \<Rightarrow>
                      if property user ''passwordHash'' \<noteq> Some (JStr hashedPassword)
                      then invalidLogin
                      else
                        (let token = generateJWT p
                               (obj_literal [(''userId'', property user ''id''),
                                             (''email'', Some (JStr email)),
                                             (''role'', property user ''role'')])
                               ExpiresDefault;
                             userWithoutPassword = obj_rest ''passwordHash'' kvs
                         in Response 200 (UserTokenBody (JObj userWithoutPassword) token))
                  | _ \<Rightarrow> invalidLogin))
      | _ \<Rightarrow> Response 400 (ErrorBody ''Email and password are required''))"

section \<open>Location handlers\<close>

record locationUpdateRequest =
  lu_deviceId :: "string option"
  lu_location :: "json option"
  lu_timestamp :: "json option"
  lu_batteryLevel :: "json option"

text \<open>
  \<^verbatim>\<open>handleLocationUpdate(request, auth)\<close>: \<open>now\<close> is \<^verbatim>\<open>Date.now()\<close>, \<open>uid\<close> is
  \<^verbatim>\<open>auth.userId\<close>. The result is the response and the store after the writes. The
  owner of the device passes without a lookup; anyone else needs the chain device, child,
  family to resolve and to list the caller as a guardian.
\<close>

definition storeLocation :: "int \<Rightarrow> kv \<Rightarrow> locationUpdateRequest \<Rightarrow> string \<Rightarrow> json \<Rightarrow> response \<times> kv" where
  "storeLocation now store req deviceId location =
     (let locationData = \<lparr> l_deviceId = deviceId, l_location = location,
            l_timestamp = or_else (lu_timestamp req) (JNum now),
            l_batteryLevel = or_else (lu_batteryLevel req) (JNum 100) \<rparr>;
          store1 = store \<lparr> kv_currentLocation :=
            (kv_currentLocation store)(deviceId \<mapsto> locationData) \<rparr>;
          existingHistory = (case kv_locationHistory store1 deviceId of
                               None \<Rightarrow> [] | Some h \<Rightarrow> h);
          history = locationData # existingHistory;
          history' = (if length history > 100 then take 100 history else history)
      in (Response 200 SuccessBody,
          store1 \<lparr> kv_locationHistory :=
            (kv_locationHistory store1)(deviceId \<mapsto> history') \<rparr>))"

definition handleLocationUpdate ::
  "int \<Rightarrow> kv \<Rightarrow> locationUpdateRequest \<Rightarrow> string \<Rightarrow> response \<times> kv" where
  "handleLocationUpdate now store req uid =
     (case (lu_deviceId req, lu_location req) of
        (Some deviceId, Some location) \<Rightarrow>
          if deviceId = [] \<or> \<not> truthy location
          then (Response 400 (ErrorBody ''Missing required fields''), store)
          else
            (case kv_device store deviceId of
               None \<Rightarrow> (Response 404 (ErrorBody ''Device not found''), store)
             | Some dev \<Rightarrow>
                 if d_userId dev \<noteq> uid
                 then
                   (case kv_child store (d_childId dev) of
                      None \<Rightarrow> (unauthorized, store)
                    | Some ch \<Rightarrow>
                        (case kv_family store (c_familyId ch) of
                           None \<Rightarrow> (unauthorized, store)
                         | Some fam \<Rightarrow>
                             if uid \<notin> set (f_guardians fam)
                             then (unauthorized, store)
                             else storeLocation now store req deviceId location))
                 else storeLocation now store req deviceId location)
      | _ \<Rightarrow> (Response 400 (ErrorBody ''Missing required fields''), store))"

text \<open>\<^verbatim>\<open>handleLocationRetrieval(request, deviceId, auth)\<close>; \<open>includeHistory\<close> is the
  query parameter \<^verbatim>\<open>history=true\<close>.\<close>

definition readLocation :: "kv \<Rightarrow> bool \<Rightarrow> string \<Rightarrow> response" where
  "readLocation store includeHistory deviceId =
     (case kv_currentLocation store deviceId of
        None \<Rightarrow> Response 404 (ErrorBody ''No location data available'')
      | Some currentLocation \<Rightarrow>
          if includeHistory
          then Response 200 (LocationHistoryBody currentLocation
                 (case kv_locationHistory store deviceId of None \<Rightarrow> [] | Some h \<Rightarrow> h))
          else Response 200 (LocationBody currentLocation))"

definition handleLocationRetrieval :: "kv \<Rightarrow> bool \<Rightarrow> string \<Rightarrow> string \<Rightarrow> response" where
  "handleLocationRetrieval store includeHistory deviceId uid =
     (case kv_device store deviceId of
        None \<Rightarrow> Response 404 (ErrorBody ''Device not found'')
      | Some dev \<Rightarrow>
          if d_userId dev \<noteq> uid
          then
            (case kv_child store (d_childId dev) of
               None \<Rightarrow> unauthorized
             | Some ch \<Rightarrow>
                 (case kv_family store (c_familyId ch) of
                    None \<Rightarrow> unauthorized
                  | Some fam \<Rightarrow>
                      if uid \<notin> set (f_guardians fam)
                      then unauthorized
                      else readLocation store includeHistory deviceId))
          else readLocation store includeHistory deviceId)"

section \<open>Command creation\<close>

record commandRequest =
  cr_deviceId :: "string option"
  cr_type :: "string option"
  cr_data :: "json option"

text \<open>
  \<^verbatim>\<open>handleCommandCreation(request, auth)\<close>: \<open>uuid\<close> is \<^verbatim>\<open>crypto.randomUUID()\<close>,
  \<open>now\<close> is \<^verbatim>\<open>Date.now()\<close>. There is no owner shortcut here: the chain is always read.
\<close>

definition storeCommand ::
  "string \<Rightarrow> int \<Rightarrow> kv \<Rightarrow> commandRequest \<Rightarrow> string \<Rightarrow> string \<Rightarrow> string \<Rightarrow> response \<times> kv" where
  "storeCommand uuid now store req deviceId type uid =
     (let commandId = uuid;
          cmd = \<lparr> m_id = commandId, m_deviceId = deviceId, m_type = type,
                  m_data = or_else (cr_data req) (JObj []), m_status = ''pending'',
                  m_createdAt = now, m_createdBy = uid, m_updatedAt = now \<rparr>;
          store1 = store \<lparr> kv_command :=
            (kv_command store)((deviceId @ '':'' @ commandId) \<mapsto> cmd) \<rparr>;
          existingCommands = (case kv_commands store1 deviceId of
                                None \<Rightarrow> [] | Some cs \<Rightarrow> cs);
          commands = commandId # existingCommands;
          commands' = (if length commands > 50 then take 50 commands else commands)
      in (Response 200 (CommandBody cmd),
          store1 \<lparr> kv_commands := (kv_commands store1)(deviceId \<mapsto> commands') \<rparr>))"

definition handleCommandCreation ::
  "string \<Rightarrow> int \<Rightarrow> kv \<Rightarrow> commandRequest \<Rightarrow> string \<Rightarrow> response \<times> kv" where
  "handleCommandCreation uuid now store req uid =
     (case (cr_deviceId req, cr_type req) of
        (Some deviceId, Some type) \<Rightarrow>
          if deviceId = [] \<or> type = []
          then (Response 400 (ErrorBody ''Missing required fields''), store)
          else
            (case kv_device store deviceId of
               None \<Rightarrow> (Response 404 (ErrorBody ''Device not found''), store)
             | Some dev \<Rightarrow>
                 (case kv_child store (d_childId dev) of
                    None \<Rightarrow> (unauthorized, store)
                  | Some ch \<Rightarrow>
                      (case kv_family store (c_familyId ch) of
                         None \<Rightarrow> (unauthorized, store)
                       | Some fam \<Rightarrow>
                           if uid \<notin> set (f_guardians fam)
                           then (unauthorized, store)
                           else storeCommand uuid now store req deviceId type uid)))
      | _ \<Rightarrow> (Response 400 (ErrorBody ''Missing required fields''), store))"

section \<open>Family update\<close>

record familyUpdateRequest =
  fu_name :: "string option"
  fu_guardians :: "string list option"

text \<open>
  \<^verbatim>\<open>handleFamilyUpdate(request, familyId, auth)\<close>. A guardians array in the request is
  truthy even when empty, so it always replaces the stored list; the caller is pushed to
  its end when it does not include them.
\<close>

definition handleFamilyUpdate ::
  "int \<Rightarrow> kv \<Rightarrow> familyUpdateRequest \<Rightarrow> string \<Rightarrow> string \<Rightarrow> response \<times> kv" where
  "handleFamilyUpdate now store req familyId uid =
     (case kv_family store familyId of
        None \<Rightarrow> (Response 404 (ErrorBody ''Family not found''), store)
      | Some fam \<Rightarrow>
          if uid \<notin> set (f_guardians fam)
          then (unauthorized, store)
          else
            (let fam1 = (case fu_name req of
                           None \<Rightarrow> fam
                         | Some name \<Rightarrow> if name \<noteq> [] then fam \<lparr> f_name := name \<rparr> else fam);
                 fam2 = (case fu_guardians req of
                           None \<Rightarrow> fam1
                         | Some guardians \<Rightarrow>
                             if uid \<notin> set guardians
                             then fam1 \<lparr> f_guardians := guardians @ [uid] \<rparr>
                             else fam1 \<lparr> f_guardians := guardians \<rparr>);
                 fam3 = fam2 \<lparr> f_updatedAt := now \<rparr>
             in (Response 200 (FamilyBody fam3),
                 store \<lparr> kv_family := (kv_family store)(familyId \<mapsto> fam3) \<rparr>)))"

section \<open>Child retrieval\<close>

text \<open>
  \<^verbatim>\<open>handleChildRetrieval(request, childId, auth)\<close>; \<open>includeDevices\<close> is the query
  parameter \<^verbatim>\<open>devices=true\<close>. The devices listed by the child that are missing from the
  store are skipped.
\<close>

definition handleChildRetrieval :: "kv \<Rightarrow> bool \<Rightarrow> string \<Rightarrow> string \<Rightarrow> response" where
  "handleChildRetrieval store includeDevices childId uid =
     (case kv_child store childId of
        None \<Rightarrow> Response 404 (ErrorBody ''Child not found'')
      | Some ch \<Rightarrow>
          (case kv_family store (c_familyId ch) of
             None \<Rightarrow> Response 404 (ErrorBody ''Family not found'')
           | Some fam \<Rightarrow>
               if uid \<notin> set (f_guardians fam) \<and> c_userId ch \<noteq> Some uid
               then unauthorized
               else if includeDevices
               then Response 200 (ChildDevicesBody ch
                      (List.map_filter (kv_device store) (c_devices ch)))
               else Response 200 (ChildBody ch)))"

section \<open>Concrete stores, platforms and tokens\<close>

definition demo_device :: device where
  "demo_device = \<lparr> d_id = ''d1'', d_name = ''phone'', d_type = ''android'',
     d_childId = ''c1'', d_userId = ''kid'', d_status = ''active'',
     d_createdAt = 1, d_updatedAt = 1 \<rparr>"

definition demo_child :: child where
  "demo_child = \<lparr> c_id = ''c1'', c_name = ''Kim'', c_familyId = ''f1'',
     c_userId = Some ''kid'', c_devices = [''d1''],
     c_createdAt = 1, c_createdBy = ''mum'', c_updatedAt = 1 \<rparr>"

definition demo_family :: family where
  "demo_family = \<lparr> f_id = ''f1'', f_name = ''Home'', f_guardians = [''mum''],
     f_children = [''c1''], f_createdAt = 1, f_createdBy = ''mum'', f_updatedAt = 1 \<rparr>"

definition demo_location :: locationData where
  "demo_location = \<lparr> l_deviceId = ''d1'', l_location = JStr ''home'',
     l_timestamp = JNum 5, l_batteryLevel = JNum 80 \<rparr>"

definition demo_kv :: kv where
  "demo_kv = empty_kv \<lparr> kv_device := [''d1'' \<mapsto> demo_device],
     kv_child := [''c1'' \<mapsto> demo_child],
     kv_family := [''f1'' \<mapsto> demo_family],
     kv_currentLocation := [''d1'' \<mapsto> demo_location],
     kv_locationHistory := [''d1'' \<mapsto> replicate 100 demo_location] \<rparr>"

definition demo_update :: locationUpdateRequest where
  "demo_update = \<lparr> lu_deviceId = Some ''d1'', lu_location = Some (JStr ''school''),
     lu_timestamp = None, lu_batteryLevel = Some (JNum 0) \<rparr>"

definition dangling_kv :: kv where
  "dangling_kv = demo_kv \<lparr> kv_family := Map.empty \<rparr>"

definition demo_command :: commandRequest where
  "demo_command = \<lparr> cr_deviceId = Some ''d1'', cr_type = Some ''lock'', cr_data = None \<rparr>"

text \<open>
  A platform to evaluate on. Its \<^verbatim>\<open>JSON.parse\<close> reads the texts the examples use, one
  object whose members are strings without escapes or unsigned integers, written without
  spaces, and agrees with \<^verbatim>\<open>JSON.parse\<close> on them; it gives \<open>None\<close> on every other text,
  which the examples never reach. Its tag and digest functions are stand-ins: the
  statements below hold for any.
\<close>

datatype lexeme = LBrace | RBrace | Colon | Comma | LStr string | LNum int

datatype lex_mode = Outside | InString string | InNumber int

definition is_digit :: "char \<Rightarrow> bool" where
  "is_digit c = (48 \<le> (of_char c :: int) \<and> (of_char c :: int) \<le> 57)"

definition digit_value :: "char \<Rightarrow> int" where
  "digit_value c = of_char c - 48"

fun lex :: "lex_mode \<Rightarrow> string \<Rightarrow> lexeme list option" where
  "lex Outside [] = Some []"
| "lex (InString s) [] = None"
| "lex (InNumber n) [] = Some [LNum n]"
| "lex Outside (c # cs) =
     (if c = CHR ''{'' then map_option ((#) LBrace) (lex Outside cs)
      else if c = CHR ''}'' then map_option ((#) RBrace) (lex Outside cs)
      else if c = CHR '':'' then map_option ((#) Colon) (lex Outside cs)
      else if c = CHR '','' then map_option ((#) Comma) (lex Outside cs)
      else if c = CHR 0x22 then lex (InString []) cs
      else if is_digit c then lex (InNumber (digit_value c)) cs
      else None)"
| "lex (InString s) (c # cs) =
     (if c = CHR 0x22 then map_option ((#) (LStr s)) (lex Outside cs)
      else if c = CHR 0x5C \<or> (of_char c :: int) < 32 then None
      else lex (InString (s @ [c])) cs)"
| "lex (InNumber n) (c # cs) =
     (if is_digit c then (if n = 0 then None else lex (InNumber (10 * n + digit_value c)) cs)
      else if c = CHR ''}'' then map_option (\<lambda>ls. LNum n # RBrace # ls) (lex Outside cs)
      else if c = CHR '','' then map_option (\<lambda>ls. LNum n # Comma # ls) (lex Outside cs)
      else None)"

fun lexeme_value :: "lexeme \<Rightarrow> json option" where
  "lexeme_value (LStr s) = Some (JStr s)"
| "lexeme_value (LNum n) = Some (JNum n)"
| "lexeme_value l = None"

fun members :: "lexeme list \<Rightarrow> (string \<times> json) list option" where
  "members [LStr k, Colon, v, RBrace] = map_option (\<lambda>x. [(k, x)]) (lexeme_value v)"
| "members (LStr k # Colon # v # Comma # rest) =
     (case (lexeme_value v, members rest) of
        (Some x, Some ms) \<Rightarrow> Some ((k, x) # ms)
      | _ \<Rightarrow> None)"
| "members ls = None"

definition demo_parse :: "string \<Rightarrow> json option" where
  "demo_parse text =
     (case lex Outside text of
        Some (LBrace # ls) \<Rightarrow>
          (if ls = [RBrace] then Some (JObj [])
           else (case members ls of
                   Some ms \<Rightarrow> if distinct (map fst ms) then Some (JObj ms) else None
                 | None \<Rightarrow> None))
      | _ \<Rightarrow> None)"

definition demo_hmac :: "string \<Rightarrow> string \<Rightarrow> string" where
  "demo_hmac k d = replicate 32 (char_of (sum_list (map of_char (k @ d)) :: int))"

definition demo_platform :: platform where
  "demo_platform = \<lparr> JWT_SECRET = SecretKey ''k3y'', hmac = demo_hmac,
     JSON_parse = demo_parse, coerced_le = (\<lambda>v n. False),
     Date_now = 1700000000999, randomUUID = ''id9'',
     sha256_hex = (\<lambda>s. ''#'' @ s) \<rparr>"

definition string_secret_platform :: platform where
  "string_secret_platform = demo_platform \<lparr> JWT_SECRET := SecretString ''test-jwt-secret'' \<rparr>"

definition demo_claims :: "(string \<times> json) list" where
  "demo_claims = [(''userId'', JStr ''u1''), (''email'', JStr ''a@b.com''),
                  (''role'', JStr ''guardian'')]"

definition kid_claims :: "(string \<times> json) list" where
  "kid_claims = [(''userId'', JStr ''kid''), (''email'', JStr ''a~b@c.com''),
                 (''role'', JStr ''guardian'')]"

definition header_text :: string where
  \<open>header_text = ''{"alg":"HS256","typ":"JWT"}''\<close>

text \<open>A token with three segments and the tag the stand-in \<open>demo_hmac\<close> expects.\<close>

definition signed_payload :: json where
  "signed_payload = JObj (demo_claims @ [(''iat'', JNum 1700000000), (''exp'', JNum 1700003600)])"

definition signed_token :: string where
  "signed_token =
     (let body = btoa header_text @ ''.'' @ btoa (stringify signed_payload)
      in body @ ''.'' @ btoa (demo_hmac ''k3y'' body))"

definition demo_register :: registerRequest where
  "demo_register = \<lparr> rr_email = Some ''a@b.com'', rr_password = Some ''pw'',
     rr_name = Some ''Ann'', rr_role = Some ''guardian'' \<rparr>"

definition demo_login :: loginRequest where
  "demo_login = \<lparr> lr_email = Some ''a@b.com'', lr_password = Some ''pw'' \<rparr>"

text \<open>
  The two alphabets: the one \<^verbatim>\<open>btoa\<close> writes in, with its padding character, and the
  URL-safe one.
\<close>

definition base64_char :: "char \<Rightarrow> bool" where
  "base64_char c = (c \<in> set b64_alphabet \<or> c = CHR ''='')"

definition base64url_char :: "char \<Rightarrow> bool" where
  "base64url_char c =
     (c \<in> set ''ABCDEFGHIJKLMNOPQRSTUVWXYZabcdefghijklmnopqrstuvwxyz0123456789-_'')"

definition refreshed_claims :: "json \<Rightarrow> (string \<times> json) list" where
  "refreshed_claims payload =
     obj_literal [(''userId'', property payload ''userId''),
                  (''email'', property payload ''email''),
                  (''role'', property payload ''role'')]"

section \<open>Facts about the platform functions\<close>

lemma b64_enc_mem: "b64_enc n \<in> set b64_alphabet"
proof -
  have "length b64_alphabet = 64" by (simp add: b64_alphabet_def)
  then have "n mod 64 < length b64_alphabet" by simp
  then show ?thesis unfolding b64_enc_def by (rule nth_mem)
qed

lemma encode_bytes_chars: "c \<in> set (encode_bytes bs) \<Longrightarrow> base64_char c"
  by (induction bs arbitrary: c rule: encode_bytes.induct)
     (auto simp: base64_char_def b64_enc_mem)

lemma btoa_chars: "list_all base64_char (btoa s)"
  by (simp add: btoa_def list_all_iff encode_bytes_chars)

lemma dot_not_base64: "\<not> base64_char CHR ''.''"
  by (simp add: base64_char_def b64_alphabet_def)

lemma btoa_no_dot: "CHR ''.'' \<notin> set (btoa s)"
  using btoa_chars [of s] dot_not_base64 by (auto simp: list_all_iff)

text \<open>Decoding undoes encoding: \<^verbatim>\<open>atob(btoa(s))\<close> is \<open>s\<close>.\<close>

lemma b64_alphabet_length: "length b64_alphabet = 64"
  by (simp add: b64_alphabet_def)

lemma b64_alphabet_distinct: "distinct b64_alphabet"
  by (simp add: b64_alphabet_def)

lemma index_of_nth: "distinct xs \<Longrightarrow> n < length xs \<Longrightarrow> index_of (xs ! n) xs = Some n"
proof (induction xs arbitrary: n)
  case Nil
  then show ?case by simp
next
  case (Cons x xs)
  show ?case
  proof (cases n)
    case 0
    then show ?thesis by simp
  next
    case (Suc m)
    with Cons.prems have "xs ! m \<in> set xs" "x \<notin> set xs" by auto
    then have "x \<noteq> xs ! m" by auto
    with Cons Suc show ?thesis by auto
  qed
qed

lemma b64_dec_enc: "n < 64 \<Longrightarrow> b64_dec (b64_enc n) = Some n"
  unfolding b64_dec_def b64_enc_def
  using index_of_nth [OF b64_alphabet_distinct, of n] by (simp add: b64_alphabet_length)

lemma b64_dec_pad: "b64_dec CHR ''='' = None"
  by (simp add: b64_dec_def b64_alphabet_def)

lemma b64_enc_not_pad: "b64_enc n \<noteq> CHR ''=''"
proof
  assume "b64_enc n = CHR ''=''"
  moreover have "b64_dec (b64_enc n) = Some (n mod 64)"
    using b64_dec_enc [of "n mod 64"] by (simp add: b64_enc_def)
  ultimately show False by (simp add: b64_dec_pad)
qed

lemma b64_enc_not_space: "\<not> ascii_whitespace (b64_enc n)"
proof
  assume "ascii_whitespace (b64_enc n)"
  moreover have "b64_enc n \<in> set b64_alphabet"
    unfolding b64_enc_def by (rule nth_mem) (simp add: b64_alphabet_length)
  ultimately show False
    by (auto simp: ascii_whitespace_def b64_alphabet_def)
qed


lemma sextet1_bound: "(a::nat) < 256 \<Longrightarrow> a div 4 < 64" by simp
lemma sextet2_bound: "(b::nat) < 256 \<Longrightarrow> (a mod 4) * 16 + b div 16 < 64"
proof -
  assume "b < 256"
  then have "b div 16 < 16" by simp
  moreover have "a mod 4 < 4" by simp
  then have "(a mod 4) * 16 \<le> 48" by simp
  ultimately show ?thesis by simp
qed
lemma sextet3_bound: "(c::nat) < 256 \<Longrightarrow> (b mod 16) * 4 + c div 64 < 64"
proof -
  assume "c < 256"
  then have "c div 64 < 4" by simp
  moreover have "b mod 16 < 16" by simp
  then have "(b mod 16) * 4 \<le> 60" by simp
  ultimately show ?thesis by simp
qed
lemma sextet2_pad_bound: "((a::nat) mod 4) * 16 < 64"
proof -
  have "a mod 4 < 4" by simp
  then show ?thesis by simp
qed
lemma sextet3_pad_bound: "((b::nat) mod 16) * 4 < 64"
proof -
  have "b mod 16 < 16" by simp
  then show ?thesis by simp
qed
lemma byte1_joined: "(b::nat) < 256 \<Longrightarrow> a div 4 * 4 + ((a mod 4) * 16 + b div 16) div 16 = a"
proof -
  assume "b < 256"
  then have "b div 16 < 16" by simp
  then have "((a mod 4) * 16 + b div 16) div 16 = a mod 4" by simp
  then show ?thesis by simp
qed
lemma byte2_joined: "(b::nat) < 256 \<Longrightarrow> (c::nat) < 256 \<Longrightarrow>
   (((a mod 4) * 16 + b div 16) mod 16) * 16 + ((b mod 16) * 4 + c div 64) div 4 = b"
proof -
  assume "b < 256" "c < 256"
  then have x: "b div 16 < 16" and y: "c div 64 < 4" by simp_all
  from x have "((a mod 4) * 16 + b div 16) mod 16 = b div 16" by simp
  moreover from y have "((b mod 16) * 4 + c div 64) div 4 = b mod 16" by simp
  ultimately show ?thesis by simp
qed
lemma byte3_joined: "(c::nat) < 256 \<Longrightarrow> (((b mod 16) * 4 + c div 64) mod 4) * 64 + c mod 64 = c"
proof -
  assume "c < 256"
  then have y: "c div 64 < 4" by simp
  then have "((b mod 16) * 4 + c div 64) mod 4 = c div 64" by simp
  then show ?thesis by simp
qed
lemma byte1_pad_joined: "(a::nat) div 4 * 4 + ((a mod 4) * 16) div 16 = a" by simp
lemma byte2_pad_joined: "(b::nat) < 256 \<Longrightarrow> (((a mod 4) * 16 + b div 16) mod 16) * 16 + ((b mod 16) * 4) div 4 = b"
proof -
  assume "b < 256"
  then have x: "b div 16 < 16" by simp
  then have "((a mod 4) * 16 + b div 16) mod 16 = b div 16" by simp
  then show ?thesis by simp
qed

lemma strip_padding_append:
  assumes "length x = 4" and "4 \<le> length e" and "length e mod 4 = 0"
  shows "strip_padding (x @ e) = x @ strip_padding e"
  using assms by (simp add: strip_padding_def)

lemma encode_bytes_length: "length (encode_bytes bs) mod 4 = 0"
  by (induction bs rule: encode_bytes.induct) auto

lemma encode_bytes_long: "bs \<noteq> [] \<Longrightarrow> 4 \<le> length (encode_bytes bs)"
  by (induction bs rule: encode_bytes.induct) auto

lemma pad_not_space: "\<not> ascii_whitespace CHR ''=''"
  by (simp add: ascii_whitespace_def)

lemma encode_bytes_no_space:
  "filter (\<lambda>c. \<not> ascii_whitespace c) (encode_bytes bs) = encode_bytes bs"
  by (induction bs rule: encode_bytes.induct)
     (simp_all add: b64_enc_not_space pad_not_space)

lemma encode_bytes_decodes:
  assumes "\<forall>b \<in> set bs. b < 256"
  shows "\<exists>sx. those (map b64_dec (strip_padding (encode_bytes bs))) = Some sx \<and>
              decode_sextets sx = bs \<and>
              length (strip_padding (encode_bytes bs)) mod 4 \<noteq> 1"
  using assms
proof (induction bs rule: encode_bytes.induct)
  case (1 a b c rest)
  then have lt: "a < 256" "b < 256" "c < 256" by auto
  from 1 obtain sx where sx: "those (map b64_dec (strip_padding (encode_bytes rest))) = Some sx"
    "decode_sextets sx = rest" "length (strip_padding (encode_bytes rest)) mod 4 \<noteq> 1"
    by auto
  let ?x = "[b64_enc (a div 4), b64_enc ((a mod 4) * 16 + b div 16),
      b64_enc ((b mod 16) * 4 + c div 64), b64_enc (c mod 64)]"
  have strip: "strip_padding (encode_bytes (a # b # c # rest)) =
      ?x @ strip_padding (encode_bytes rest)"
  proof (cases "rest = []")
    case True
    then show ?thesis by (simp add: strip_padding_def b64_enc_not_pad)
  next
    case False
    then show ?thesis
      using strip_padding_append [of ?x "encode_bytes rest"]
        encode_bytes_long [of rest] encode_bytes_length [of rest] by simp
  qed
  have "those (map b64_dec (?x @ strip_padding (encode_bytes rest))) =
      Some ([a div 4, (a mod 4) * 16 + b div 16, (b mod 16) * 4 + c div 64, c mod 64] @ sx)"
    using sx(1) lt by (simp add: b64_dec_enc sextet1_bound sextet2_bound sextet3_bound)
  moreover have "decode_sextets
      ([a div 4, (a mod 4) * 16 + b div 16, (b mod 16) * 4 + c div 64, c mod 64] @ sx)
      = a # b # c # rest"
    using sx(2) lt by (simp add: byte1_joined byte2_joined byte3_joined)
  moreover have "length (?x @ strip_padding (encode_bytes rest)) mod 4 \<noteq> 1"
    using sx(3) by simp
  ultimately show ?case unfolding strip by blast
next
  case (2 a b)
  then have lt: "a < 256" "b < 256" by auto
  have "strip_padding (encode_bytes [a, b]) =
      [b64_enc (a div 4), b64_enc ((a mod 4) * 16 + b div 16), b64_enc ((b mod 16) * 4)]"
    by (simp add: strip_padding_def b64_enc_not_pad)
  then show ?case
    using lt by (simp add: b64_dec_enc sextet1_bound sextet2_bound sextet3_pad_bound
          byte1_joined byte2_pad_joined)
next
  case (3 a)
  then have lt: "a < 256" by auto
  have "strip_padding (encode_bytes [a]) = [b64_enc (a div 4), b64_enc ((a mod 4) * 16)]"
    by (simp add: strip_padding_def b64_enc_not_pad)
  then show ?case
    using lt by (simp add: b64_dec_enc sextet1_bound sextet2_pad_bound byte1_pad_joined)
next
  case 4
  then show ?case by (simp add: strip_padding_def)
qed

lemma atob_btoa: "atob (btoa s) = Some s"
proof -
  have "\<forall>b \<in> set (map of_char s :: nat list). b < 256" by simp
  from encode_bytes_decodes [OF this] obtain sx where
    "those (map b64_dec (strip_padding (encode_bytes (map of_char s)))) = Some sx"
    "decode_sextets sx = map of_char s"
    "length (strip_padding (encode_bytes (map of_char s))) mod 4 \<noteq> 1"
    by blast
  then show ?thesis
    by (simp add: atob_def btoa_def encode_bytes_no_space Let_def comp_def)
qed

lemma split_on_nonempty: "split_on sep s \<noteq> []"
  by (induction s) (auto split: list.splits)

lemma split_on_single: "sep \<notin> set a \<Longrightarrow> split_on sep a = [a]"
  by (induction a) auto

lemma split_on_append:
  "sep \<notin> set a \<Longrightarrow> split_on sep (a @ sep # rest) = a # split_on sep rest"
  by (induction a) (auto split: list.splits)

lemma stringify_header:
  "stringify (JObj [(''alg'', JStr ''HS256''), (''typ'', JStr ''JWT'')]) = header_text"
  unfolding header_text_def by code_simp

lemma generateJWT_eq:
  "generateJWT p payload e =
     btoa header_text @ ''.'' @ btoa (stringify (JObj (tokenPayload p payload e))) @ ''.'' @ []"
  by (simp add: generateJWT_def Let_def bytes_of_object_def btoa_def stringify_header
           del: stringify.simps)

lemma generateJWT_split:
  "split_on CHR ''.'' (generateJWT p payload e) =
     [btoa header_text, btoa (stringify (JObj (tokenPayload p payload e))), []]"
  unfolding generateJWT_eq
  using split_on_append [of "CHR ''.''" "btoa header_text"]
        split_on_append [of "CHR ''.''" "btoa (stringify (JObj (tokenPayload p payload e)))" "[]"]
  by (simp add: btoa_no_dot del: stringify.simps)

lemma map_of_obj_put_same: "map_of (obj_put kvs k v) k = Some v"
  by (induction kvs) auto

lemma map_of_obj_put_other: "k' \<noteq> k \<Longrightarrow> map_of (obj_put kvs k v) k' = map_of kvs k'"
  by (induction kvs) auto

lemma obj_put_fresh: "k \<notin> fst ` set kvs \<Longrightarrow> obj_put kvs k v = kvs @ [(k, v)]"
  by (induction kvs) auto

lemma atob_undefined: "atob ''undefined'' = None"
  by code_simp

lemma atob_empty: "atob [] = Some []"
  by code_simp

lemma nth_opt_take: "i < n \<Longrightarrow> nth_opt (take n xs) i = nth_opt xs i"
  by (induction xs i arbitrary: n rule: nth_opt.induct) (auto simp: take_Cons')

lemma nth_opt_length: "length xs \<le> i \<Longrightarrow> nth_opt xs i = None"
  by (induction xs i rule: nth_opt.induct) auto

lemma verifyJWT_take:
  assumes "take 3 (split_on CHR ''.'' t) = take 3 (split_on CHR ''.'' t')"
  shows "verifyJWT p t = verifyJWT p t'"
proof -
  have "nth_opt (split_on CHR ''.'' t) i = nth_opt (split_on CHR ''.'' t') i" if "i < 3" for i
    using nth_opt_take [OF that, of "split_on CHR ''.'' t"]
          nth_opt_take [OF that, of "split_on CHR ''.'' t'"] assms by simp
  then have "nth_opt (split_on CHR ''.'' t) 0 = nth_opt (split_on CHR ''.'' t') 0"
    "nth_opt (split_on CHR ''.'' t) 1 = nth_opt (split_on CHR ''.'' t') 1"
    "nth_opt (split_on CHR ''.'' t) 2 = nth_opt (split_on CHR ''.'' t') 2"
    by simp_all
  then show ?thesis unfolding verifyJWT_def Let_def by (simp only:)
qed

lemma verifyJWT_one_segment:
  assumes "length (split_on CHR ''.'' t) = 1"
  shows "verifyJWT p t = invalidFormat"
proof -
  have "nth_opt (split_on CHR ''.'' t) 1 = None"
    using assms by (simp add: nth_opt_length)
  then show ?thesis
    by (simp add: verifyJWT_def Let_def js_string_def atob_undefined)
qed

lemma verifyJWT_two_segments:
  assumes "length (split_on CHR ''.'' t) = 2"
  shows "verifyJWT p t = invalidFormat \<or> verifyJWT p t = Invalid ''Token expired''"
proof -
  have "nth_opt (split_on CHR ''.'' t) 2 = None"
    using assms by (simp add: nth_opt_length)
  then show ?thesis
    by (simp add: verifyJWT_def Let_def js_string_def atob_undefined split: option.splits)
qed

lemma verifyJWT_empty: "verifyJWT p [] = invalidFormat"
  by (rule verifyJWT_one_segment) simp

lemma fresh_token_never_valid:
  assumes "\<And>k d. hmac p k d \<noteq> []"
  shows "verifyJWT p (generateJWT p payload e) \<noteq> Valid x"
proof -
  have "[] \<noteq> hmac p k d" for k d using assms [of k d] by simp
  then show ?thesis
  by (simp add: verifyJWT_def Let_def generateJWT_split js_string_def atob_empty
        subtle_verify_def invalidFormat_def numeral_2_eq_2
        split: option.splits secret.splits promise.splits del: stringify.simps)
qed

text \<open>
  What verification answers on a fresh token, when \<^verbatim>\<open>JSON.parse\<close> reads back the payload
  that was written and the lifetime is positive: the expiry test passes, and the empty
  signature segment is refused.
\<close>

lemma fresh_token_outcome:
  assumes parse: "JSON_parse p (stringify (JObj (tokenPayload p payload e))) =
                    Some (JObj (tokenPayload p payload e))"
    and life: "0 < lifetime e"
    and tag: "\<And>k d. hmac p k d \<noteq> []"
  shows "verifyJWT p (generateJWT p payload e) =
           (case JWT_SECRET p of
              SecretString s \<Rightarrow> Invalid ''Invalid token format''
            | SecretKey k \<Rightarrow> Invalid ''Invalid signature'')"
proof -
  have tag': "[] \<noteq> hmac p k d" for k d using tag [of k d] by simp
  have exp: "map_of (tokenPayload p payload e) ''exp'' = Some (JNum (seconds_now p + lifetime e))"
    by (simp add: tokenPayload_def Let_def map_of_obj_put_same)
  with life have fresh: "\<not> exp_le p (property (JObj (tokenPayload p payload e)) ''exp'')
      (seconds_now p)"
    by simp
  show ?thesis
    using parse fresh tag'
    by (simp add: verifyJWT_def Let_def generateJWT_split js_string_def atob_empty atob_btoa
          subtle_verify_def invalidFormat_def numeral_2_eq_2
          split: secret.splits del: stringify.simps property.simps)
qed

lemma obj_literal_keys: "fst ` set (obj_literal ms) \<subseteq> fst ` set ms"
  by (induction ms) (auto simp: obj_literal_def split: option.splits)

lemma tokenPayload_fresh:
  assumes "''iat'' \<notin> fst ` set claims" and "''exp'' \<notin> fst ` set claims"
  shows "tokenPayload p claims e =
           claims @ [(''iat'', JNum (seconds_now p)),
                     (''exp'', JNum (seconds_now p + lifetime e))]"
  using assms by (simp add: tokenPayload_def Let_def obj_put_fresh)

lemma tokenPayload_refreshed:
  "tokenPayload p (refreshed_claims payload) ExpiresDefault =
     refreshed_claims payload @
       [(''iat'', JNum (seconds_now p)), (''exp'', JNum (seconds_now p + 604800))]"
proof -
  have "fst ` set (refreshed_claims payload) \<subseteq> {''userId'', ''email'', ''role''}"
    unfolding refreshed_claims_def using obj_literal_keys by fastforce
  then have "''iat'' \<notin> fst ` set (refreshed_claims payload)"
    "''exp'' \<notin> fst ` set (refreshed_claims payload)" by auto
  then show ?thesis by (simp add: tokenPayload_fresh lifetime_def)
qed

lemma refreshed_claims_fields:
  "map_of (refreshed_claims payload) ''userId'' = property payload ''userId''"
  "map_of (refreshed_claims payload) ''email'' = property payload ''email''"
  "map_of (refreshed_claims payload) ''role'' = property payload ''role''"
  by (cases "property payload ''userId''"; cases "property payload ''email''";
      cases "property payload ''role''";
      simp add: refreshed_claims_def obj_literal_def)+

lemma obj_rest_keys: "k \<notin> fst ` set (obj_rest k kvs)"
  by (auto simp: obj_rest_def)

section \<open>Issuing and verifying\<close>

text \<open>
  C1. The claim is that a token verifies right after it is issued. In the code it does
  not: the signature segment of an issued token is empty, because the promise of
  \<^verbatim>\<open>crypto.subtle.sign\<close> is never awaited. For the claims of the specification's own
  scenario and a lifetime of 3600 seconds, verification answers ``Invalid signature'' on a
  platform whose secret is a key object, and ``Invalid token format'' when the secret is a
  plain string.
\<close>

theorem fresh_token_rejected:
  "generateJWT demo_platform demo_claims (ExpiresNumber 3600) =
     ''eyJhbGciOiJIUzI1NiIsInR5cCI6IkpXVCJ9.eyJ1c2VySWQiOiJ1MSIsImVtYWlsIjoiYUBiLmNvbSIsInJvbGUiOiJndWFyZGlhbiIsImlhdCI6MTcwMDAwMDAwMCwiZXhwIjoxNzAwMDAzNjAwfQ==.'' \<and>
   verifyJWT demo_platform (generateJWT demo_platform demo_claims (ExpiresNumber 3600))
     = Invalid ''Invalid signature'' \<and>
   verifyJWT string_secret_platform
       (generateJWT string_secret_platform demo_claims (ExpiresNumber 3600))
     = Invalid ''Invalid token format''"
  by code_simp

section \<open>The number of segments\<close>

text \<open>
  C2, as stated, fails: \<^verbatim>\<open>verifyJWT\<close> never counts the segments. A token of two segments,
  or of four, whose payload \<^verbatim>\<open>{"exp":0}\<close> is expired is reported as ``Token expired'',
  and a valid token followed by a fourth segment is accepted.
\<close>

theorem segment_count_counterexample:
  "length (split_on CHR ''.'' ''x.eyJleHAiOjB9'') = 2 \<and>
   verifyJWT demo_platform ''x.eyJleHAiOjB9'' = Invalid ''Token expired'' \<and>
   length (split_on CHR ''.'' ''x.eyJleHAiOjB9.y.z'') = 4 \<and>
   verifyJWT demo_platform ''x.eyJleHAiOjB9.y.z'' = Invalid ''Token expired'' \<and>
   length (split_on CHR ''.'' (signed_token @ ''.more'')) = 4 \<and>
   verifyJWT demo_platform (signed_token @ ''.more'') = Valid signed_payload"
  by code_simp

text \<open>
  C2, amended. A string with one segment fails with ``Invalid token format''. A string
  with two segments never verifies: it fails with ``Invalid token format'' or, when its
  payload is expired, with ``Token expired''. Segments after the third are not read: two
  strings whose first three segments agree get the same result.
\<close>

theorem verifyJWT_segment_count:
  "(length (split_on CHR ''.'' token) = 1 \<longrightarrow> verifyJWT p token = invalidFormat) \<and>
   (length (split_on CHR ''.'' token) = 2 \<longrightarrow>
      verifyJWT p token = invalidFormat \<or> verifyJWT p token = Invalid ''Token expired'') \<and>
   (take 3 (split_on CHR ''.'' token) = take 3 (split_on CHR ''.'' token') \<longrightarrow>
      verifyJWT p token = verifyJWT p token')"
  using verifyJWT_one_segment verifyJWT_two_segments verifyJWT_take by blast

theorem verifyJWT_segment_count_witness:
  "length (split_on CHR ''.'' ''abc'') = 1 \<and>
   verifyJWT demo_platform ''abc'' = Invalid ''Invalid token format'' \<and>
   length (split_on CHR ''.'' ''x.eyJleHAiOjB9'') = 2 \<and>
   verifyJWT demo_platform ''x.eyJleHAiOjB9'' = Invalid ''Token expired'' \<and>
   take 3 (split_on CHR ''.'' ''a.b.c.d'') = take 3 (split_on CHR ''.'' ''a.b.c'') \<and>
   verifyJWT demo_platform ''a.b.c.d'' = verifyJWT demo_platform ''a.b.c''"
proof -
  have one: "length (split_on CHR ''.'' ''abc'') = 1" by simp
  have two: "length (split_on CHR ''.'' ''x.eyJleHAiOjB9'') = 2" by simp
  have same: "take 3 (split_on CHR ''.'' ''a.b.c.d'') = take 3 (split_on CHR ''.'' ''a.b.c'')"
    by simp
  have expired: "verifyJWT demo_platform ''x.eyJleHAiOjB9'' = Invalid ''Token expired''"
    by code_simp
  from verifyJWT_segment_count [of "''abc''" demo_platform] one
  have a: "verifyJWT demo_platform ''abc'' = Invalid ''Invalid token format''"
    by (simp add: invalidFormat_def)
  from verifyJWT_segment_count [of "''a.b.c.d''" demo_platform "''a.b.c''"] same
  have c: "verifyJWT demo_platform ''a.b.c.d'' = verifyJWT demo_platform ''a.b.c''"
    by blast
  from one two same expired a c show ?thesis by blast
qed

section \<open>The wire format\<close>

text \<open>
  C3, as stated, fails: the segments are written by \<^verbatim>\<open>btoa\<close>, in the standard alphabet
  with padding, not the URL-safe one. The payload segment of the token issued for
  \<open>kid_claims\<close> contains \<^verbatim>\<open>+\<close> and ends in \<^verbatim>\<open>==\<close>.
\<close>

theorem base64url_counterexample:
  "nth_opt (split_on CHR ''.'' (generateJWT demo_platform kid_claims (ExpiresNumber 3600))) 1
     = Some ''eyJ1c2VySWQiOiJraWQiLCJlbWFpbCI6ImF+YkBjLmNvbSIsInJvbGUiOiJndWFyZGlhbiIsImlhdCI6MTcwMDAwMDAwMCwiZXhwIjoxNzAwMDAzNjAwfQ=='' \<and>
   \<not> base64url_char CHR ''+'' \<and> \<not> base64url_char CHR ''='' \<and>
   \<not> list_all base64url_char
       ''eyJ1c2VySWQiOiJraWQiLCJlbWFpbCI6ImF+YkBjLmNvbSIsInJvbGUiOiJndWFyZGlhbiIsImlhdCI6MTcwMDAwMDAwMCwiZXhwIjoxNzAwMDAzNjAwfQ==''"
  by code_simp

text \<open>
  C3, amended. Every token produced by \<^verbatim>\<open>generateJWT\<close>, for the default lifetime or an
  explicit number of seconds below \<open>2\<^sup>3\<^sup>2\<close>, is \<^verbatim>\<open>btoa\<close> of the header text
  \<^verbatim>\<open>{"alg":"HS256","typ":"JWT"}\<close>, a dot, \<^verbatim>\<open>btoa\<close> of the JSON text of the payload, a dot,
  and \<^verbatim>\<open>btoa\<close> of the signature bytes, and splits on the dot into exactly these three
  segments. Each of the three is written in the standard Base64 alphabet with \<^verbatim>\<open>=\<close>
  padding, \<^verbatim>\<open>atob\<close> gives the texts of the first two back, and the payload carries \<^verbatim>\<open>iat\<close>,
  the current time in seconds, and \<^verbatim>\<open>exp\<close>, \<^verbatim>\<open>iat\<close> plus the lifetime in seconds.
\<close>

theorem generateJWT_wire_format:
  "\<exists>signatureBytes.
     generateJWT p payload e =
       btoa header_text @ ''.'' @ btoa (stringify (JObj (tokenPayload p payload e))) @ ''.'' @
       btoa signatureBytes \<and>
     split_on CHR ''.'' (generateJWT p payload e) =
       [btoa header_text, btoa (stringify (JObj (tokenPayload p payload e))),
        btoa signatureBytes] \<and>
     stringify (JObj [(''alg'', JStr ''HS256''), (''typ'', JStr ''JWT'')]) = header_text \<and>
     atob (btoa header_text) = Some header_text \<and>
     atob (btoa (stringify (JObj (tokenPayload p payload e)))) =
       Some (stringify (JObj (tokenPayload p payload e))) \<and>
     list_all base64_char (btoa header_text) \<and>
     list_all base64_char (btoa (stringify (JObj (tokenPayload p payload e)))) \<and>
     list_all base64_char (btoa signatureBytes) \<and>
     map_of (tokenPayload p payload e) ''iat'' = Some (JNum (seconds_now p)) \<and>
     map_of (tokenPayload p payload e) ''exp'' =
       Some (JNum (seconds_now p +
         (case e of ExpiresDefault \<Rightarrow> 604800 | ExpiresNumber n \<Rightarrow> uint n)))"
proof -
  have iat: "map_of (tokenPayload p payload e) ''iat'' = Some (JNum (seconds_now p))"
    by (simp add: tokenPayload_def Let_def map_of_obj_put_other map_of_obj_put_same)
  have exp: "map_of (tokenPayload p payload e) ''exp'' =
       Some (JNum (seconds_now p +
         (case e of ExpiresDefault \<Rightarrow> 604800 | ExpiresNumber n \<Rightarrow> uint n)))"
    by (simp add: tokenPayload_def Let_def map_of_obj_put_same lifetime_def
             split: expiresIn.splits)
  have empty: "btoa [] = []" by (simp add: btoa_def)
  have whole: "generateJWT p payload e =
       btoa header_text @ ''.'' @ btoa (stringify (JObj (tokenPayload p payload e))) @ ''.'' @
       btoa []"
    using generateJWT_eq [of p payload e] by (simp only: empty)
  have parts: "split_on CHR ''.'' (generateJWT p payload e) =
       [btoa header_text, btoa (stringify (JObj (tokenPayload p payload e))), btoa []]"
    using generateJWT_split [of p payload e] by (simp only: empty)
  from whole parts iat exp stringify_header btoa_chars atob_btoa
  show ?thesis by blast
qed

section \<open>Missing records along the chain\<close>

text \<open>
  C4, as stated, fails. In \<open>dangling_kv\<close> the child \<open>c1\<close> points to the family \<open>f1\<close>,
  which is not stored. Child retrieval answers 404 ``Family not found'', which is not the
  403 refusal; and the device's own user, who passes before the chain is read, is given
  the location of \<open>d1\<close>.
\<close>

theorem dangling_chain_counterexample:
  "kv_child dangling_kv ''c1'' = Some demo_child \<and>
   kv_family dangling_kv (c_familyId demo_child) = None \<and>
   handleChildRetrieval dangling_kv False ''c1'' ''mum''
     = Response 404 (ErrorBody ''Family not found'') \<and>
   handleChildRetrieval dangling_kv False ''c1'' ''mum'' \<noteq> unauthorized \<and>
   kv_device dangling_kv ''d1'' = Some demo_device \<and>
   d_childId demo_device = ''c1'' \<and>
   handleLocationRetrieval dangling_kv False ''d1'' ''kid''
     = Response 200 (LocationBody demo_location)"
  by (simp add: handleChildRetrieval_def handleLocationRetrieval_def readLocation_def
        dangling_kv_def demo_kv_def empty_kv_def demo_child_def demo_device_def
        unauthorized_def)

text \<open>
  C4, amended. When the child or the family record of a device is missing, a caller other
  than the device's own user is refused with 403 ``Unauthorized'' by location retrieval
  and location update, and any caller is refused so by command creation; the store is left
  as it was. When the family record of a child is missing, child retrieval answers 404
  ``Family not found'' and returns no child data.
\<close>

theorem dangling_chain_refused:
  "(kv_device store deviceId = Some dev \<and>
      (kv_child store (d_childId dev) = None \<or>
       (\<exists>ch. kv_child store (d_childId dev) = Some ch \<and>
             kv_family store (c_familyId ch) = None))
    \<longrightarrow> (d_userId dev \<noteq> uid \<longrightarrow>
           handleLocationRetrieval store incl deviceId uid = unauthorized \<and>
           (lu_deviceId lreq = Some deviceId \<and> deviceId \<noteq> [] \<and> truthy_opt (lu_location lreq)
              \<longrightarrow> handleLocationUpdate now store lreq uid = (unauthorized, store))) \<and>
         (cr_deviceId creq = Some deviceId \<and> deviceId \<noteq> [] \<and> truthy_str (cr_type creq)
              \<longrightarrow> handleCommandCreation uuid now store creq uid = (unauthorized, store))) \<and>
   (kv_child store childId = Some ch' \<and> kv_family store (c_familyId ch') = None
    \<longrightarrow> handleChildRetrieval store incl childId uid
          = Response 404 (ErrorBody ''Family not found''))"
  by (auto simp: handleLocationRetrieval_def handleLocationUpdate_def
        handleCommandCreation_def handleChildRetrieval_def truthy_opt_def truthy_str_def
        split: option.splits)

theorem dangling_chain_refused_witness:
  "kv_device dangling_kv ''d1'' = Some demo_device \<and>
   kv_child dangling_kv (d_childId demo_device) = Some demo_child \<and>
   kv_family dangling_kv (c_familyId demo_child) = None \<and>
   d_userId demo_device \<noteq> ''mum'' \<and>
   handleLocationRetrieval dangling_kv True ''d1'' ''mum'' = unauthorized \<and>
   handleLocationUpdate 7 dangling_kv demo_update ''mum'' = (unauthorized, dangling_kv) \<and>
   handleCommandCreation ''id9'' 7 dangling_kv
       \<lparr> cr_deviceId = Some ''d1'', cr_type = Some ''lock'', cr_data = None \<rparr> ''mum''
     = (unauthorized, dangling_kv) \<and>
   handleChildRetrieval dangling_kv True ''c1'' ''mum''
     = Response 404 (ErrorBody ''Family not found'')"
proof -
  have pre: "kv_device dangling_kv ''d1'' = Some demo_device"
    "kv_child dangling_kv (d_childId demo_device) = Some demo_child"
    "kv_family dangling_kv (c_familyId demo_child) = None"
    "d_userId demo_device \<noteq> ''mum''"
    by (simp_all add: dangling_kv_def demo_kv_def empty_kv_def demo_device_def demo_child_def)
  from dangling_chain_refused [of dangling_kv "''d1''" demo_device "''mum''" True
      demo_update 7 "\<lparr> cr_deviceId = Some ''d1'', cr_type = Some ''lock'', cr_data = None \<rparr>"
      "''id9''" "''c1''" demo_child] pre
  show ?thesis
    by (simp add: demo_update_def truthy_opt_def truthy_str_def demo_device_def)
qed

section \<open>Who may create a command\<close>

text \<open>
  C5. A caller who is the device's own user but is not a guardian of the family resolved
  through the device's child (the chain may also be broken) cannot create a command: the
  response is never 200, nothing is written, and a request that carries its device id and
  type is refused with 403 ``Unauthorized''. Conversely a command is created only for a
  caller listed in the guardians of that family.
\<close>

theorem command_creation_guardians_only:
  "(kv_device store deviceId = Some dev \<and> d_userId dev = uid \<and>
    cr_deviceId req = Some deviceId \<and>
    \<not> (\<exists>ch fam. kv_child store (d_childId dev) = Some ch \<and>
                 kv_family store (c_familyId ch) = Some fam \<and> uid \<in> set (f_guardians fam))
    \<longrightarrow> snd (handleCommandCreation uuid now store req uid) = store \<and>
        status (fst (handleCommandCreation uuid now store req uid)) \<noteq> 200 \<and>
        (deviceId \<noteq> [] \<and> truthy_str (cr_type req)
           \<longrightarrow> fst (handleCommandCreation uuid now store req uid) = unauthorized)) \<and>
   (status (fst (handleCommandCreation uuid now store req uid)) = 200
    \<longrightarrow> (\<exists>deviceId dev ch fam.
           cr_deviceId req = Some deviceId \<and> kv_device store deviceId = Some dev \<and>
           kv_child store (d_childId dev) = Some ch \<and>
           kv_family store (c_familyId ch) = Some fam \<and> uid \<in> set (f_guardians fam)))"
  by (auto simp: handleCommandCreation_def unauthorized_def truthy_str_def
           split: option.splits if_splits)

theorem command_creation_guardians_only_witness:
  "kv_device demo_kv ''d1'' = Some demo_device \<and> d_userId demo_device = ''kid'' \<and>
   ''kid'' \<notin> set (f_guardians demo_family) \<and>
   handleCommandCreation ''id9'' 7 demo_kv demo_command ''kid'' = (unauthorized, demo_kv) \<and>
   status (fst (handleCommandCreation ''id9'' 7 demo_kv demo_command ''mum'')) = 200 \<and>
   ''mum'' \<in> set (f_guardians demo_family)"
proof -
  have pre: "kv_device demo_kv ''d1'' = Some demo_device" "d_userId demo_device = ''kid''"
    "kv_child demo_kv (d_childId demo_device) = Some demo_child"
    "kv_family demo_kv (c_familyId demo_child) = Some demo_family"
    "''kid'' \<notin> set (f_guardians demo_family)" "''mum'' \<in> set (f_guardians demo_family)"
    by (simp_all add: demo_kv_def empty_kv_def demo_device_def demo_child_def demo_family_def)
  have ok: "status (fst (handleCommandCreation ''id9'' 7 demo_kv demo_command ''mum'')) = 200"
    using pre by (simp add: handleCommandCreation_def storeCommand_def demo_command_def Let_def)
  from command_creation_guardians_only [of demo_kv "''d1''" demo_device "''kid''" demo_command
      "''id9''" 7] pre
  have "handleCommandCreation ''id9'' 7 demo_kv demo_command ''kid'' = (unauthorized, demo_kv)"
    by (simp add: demo_command_def truthy_str_def prod_eq_iff)
  with pre ok show ?thesis by simp
qed

section \<open>Refreshing a token\<close>

text \<open>
  C6. Whenever the verification endpoint answers with an error, the refresh endpoint
  answers with the same response, which carries no token; in particular a token that
  \<^verbatim>\<open>verifyJWT\<close> rejects with some reason is refused by refresh with status 401 and that
  reason. When \<^verbatim>\<open>verifyJWT\<close> accepts the token, refresh answers 200 with a token issued
  by \<^verbatim>\<open>generateJWT\<close> with the default lifetime, whose payload segment decodes to the
  JSON text of an object with the \<^verbatim>\<open>userId\<close>, \<^verbatim>\<open>email\<close> and \<^verbatim>\<open>role\<close> of the verified
  payload followed by \<^verbatim>\<open>iat\<close>, the current time, and \<^verbatim>\<open>exp\<close>, seven days later.
\<close>

theorem refresh_follows_verify:
  "(status (handleVerify p tokenField) \<noteq> 200 \<longrightarrow>
      handleRefresh p tokenField = handleVerify p tokenField) \<and>
   (token \<noteq> [] \<and> verifyJWT p token = Invalid reason \<longrightarrow>
      handleRefresh p (Some token) = Response 401 (ErrorBody reason)) \<and>
   (verifyJWT p token = Valid payload \<longrightarrow>
      (\<exists>newToken payloadSegment signatureSegment.
         handleRefresh p (Some token) = Response 200 (TokenBody newToken) \<and>
         newToken = generateJWT p (refreshed_claims payload) ExpiresDefault \<and>
         split_on CHR ''.'' newToken = [btoa header_text, payloadSegment, signatureSegment] \<and>
         atob payloadSegment =
           Some (stringify (JObj (refreshed_claims payload @
                   [(''iat'', JNum (seconds_now p)),
                    (''exp'', JNum (seconds_now p + 7 * 24 * 60 * 60))]))) \<and>
         map_of (refreshed_claims payload) ''userId'' = property payload ''userId'' \<and>
         map_of (refreshed_claims payload) ''email'' = property payload ''email'' \<and>
         map_of (refreshed_claims payload) ''role'' = property payload ''role''))"
proof (intro conjI impI)
  assume "status (handleVerify p tokenField) \<noteq> 200"
  then show "handleRefresh p tokenField = handleVerify p tokenField"
    by (auto simp: handleVerify_def handleRefresh_def
             split: option.splits verifyResult.splits if_splits)
next
  assume "token \<noteq> [] \<and> verifyJWT p token = Invalid reason"
  then show "handleRefresh p (Some token) = Response 401 (ErrorBody reason)"
    by (simp add: handleRefresh_def)
next
  assume valid: "verifyJWT p token = Valid payload"
  then have "token \<noteq> []"
    using verifyJWT_empty [of p] by (auto simp: invalidFormat_def)
  with valid have "handleRefresh p (Some token) =
      Response 200 (TokenBody (generateJWT p (refreshed_claims payload) ExpiresDefault))"
    by (simp add: handleRefresh_def refreshed_claims_def Let_def)
  moreover have "split_on CHR ''.'' (generateJWT p (refreshed_claims payload) ExpiresDefault) =
      [btoa header_text,
       btoa (stringify (JObj (refreshed_claims payload @
              [(''iat'', JNum (seconds_now p)),
               (''exp'', JNum (seconds_now p + 7 * 24 * 60 * 60))]))), []]"
    by (simp add: generateJWT_split tokenPayload_refreshed del: stringify.simps)
  ultimately show "\<exists>newToken payloadSegment signatureSegment.
         handleRefresh p (Some token) = Response 200 (TokenBody newToken) \<and>
         newToken = generateJWT p (refreshed_claims payload) ExpiresDefault \<and>
         split_on CHR ''.'' newToken = [btoa header_text, payloadSegment, signatureSegment] \<and>
         atob payloadSegment =
           Some (stringify (JObj (refreshed_claims payload @
                   [(''iat'', JNum (seconds_now p)),
                    (''exp'', JNum (seconds_now p + 7 * 24 * 60 * 60))]))) \<and>
         map_of (refreshed_claims payload) ''userId'' = property payload ''userId'' \<and>
         map_of (refreshed_claims payload) ''email'' = property payload ''email'' \<and>
         map_of (refreshed_claims payload) ''role'' = property payload ''role''"
    using refreshed_claims_fields atob_btoa by blast
qed

theorem refresh_follows_verify_witness:
  "status (handleVerify demo_platform (Some ''x.eyJleHAiOjB9'')) \<noteq> 200 \<and>
   verifyJWT demo_platform ''x.eyJleHAiOjB9'' = Invalid ''Token expired'' \<and>
   handleRefresh demo_platform (Some ''x.eyJleHAiOjB9'')
     = Response 401 (ErrorBody ''Token expired'') \<and>
   handleRefresh demo_platform (Some ''x.eyJleHAiOjB9'')
     = handleVerify demo_platform (Some ''x.eyJleHAiOjB9'') \<and>
   verifyJWT demo_platform signed_token = Valid signed_payload \<and>
   handleRefresh demo_platform (Some signed_token) = Response 200 (TokenBody
     ''eyJhbGciOiJIUzI1NiIsInR5cCI6IkpXVCJ9.eyJ1c2VySWQiOiJ1MSIsImVtYWlsIjoiYUBiLmNvbSIsInJvbGUiOiJndWFyZGlhbiIsImlhdCI6MTcwMDAwMDAwMCwiZXhwIjoxNzAwNjA0ODAwfQ==.'')"
proof -
  have expired: "verifyJWT demo_platform ''x.eyJleHAiOjB9'' = Invalid ''Token expired''"
    by code_simp
  then have err: "status (handleVerify demo_platform (Some ''x.eyJleHAiOjB9'')) \<noteq> 200"
    by (simp add: handleVerify_def)
  have valid: "verifyJWT demo_platform signed_token = Valid signed_payload"
    by code_simp
  have issued: "generateJWT demo_platform (refreshed_claims signed_payload) ExpiresDefault =
     ''eyJhbGciOiJIUzI1NiIsInR5cCI6IkpXVCJ9.eyJ1c2VySWQiOiJ1MSIsImVtYWlsIjoiYUBiLmNvbSIsInJvbGUiOiJndWFyZGlhbiIsImlhdCI6MTcwMDAwMDAwMCwiZXhwIjoxNzAwNjA0ODAwfQ==.''"
    by code_simp
  note a = refresh_follows_verify [of demo_platform "Some ''x.eyJleHAiOjB9''"
      "''x.eyJleHAiOjB9''" "''Token expired''" signed_payload]
  note b = refresh_follows_verify [of demo_platform None signed_token "[]" signed_payload]
  from a err have r1:
    "handleRefresh demo_platform (Some ''x.eyJleHAiOjB9'')
       = handleVerify demo_platform (Some ''x.eyJleHAiOjB9'')"
    by blast
  from a expired have r2:
    "handleRefresh demo_platform (Some ''x.eyJleHAiOjB9'')
       = Response 401 (ErrorBody ''Token expired'')"
    by simp
  from b valid issued have r3:
    "handleRefresh demo_platform (Some signed_token) = Response 200 (TokenBody
     ''eyJhbGciOiJIUzI1NiIsInR5cCI6IkpXVCJ9.eyJ1c2VySWQiOiJ1MSIsImVtYWlsIjoiYUBiLmNvbSIsInJvbGUiOiJndWFyZGlhbiIsImlhdCI6MTcwMDAwMDAwMCwiZXhwIjoxNzAwNjA0ODAwfQ==.'')"
    by auto
  from err expired r2 r1 valid r3 show ?thesis by (intro conjI)
qed

section \<open>Expiry\<close>

text \<open>
  C7. A token whose payload segment decodes and parses to a payload with a numeric
  \<^verbatim>\<open>exp\<close> that is not after the current time in seconds, and in particular equal to it,
  fails with ``Token expired'', whatever its signature.
\<close>

theorem expired_at_boundary:
  assumes "atob (js_string (nth_opt (split_on CHR ''.'' token) 1)) = Some text"
    and "JSON_parse p text = Some payload"
    and "property payload ''exp'' = Some (JNum e)"
    and "e \<le> seconds_now p"
  shows "verifyJWT p token = Invalid ''Token expired''"
proof -
  from assms(3) have "payload \<noteq> JNull" by auto
  with assms show ?thesis by (simp add: verifyJWT_def Let_def)
qed

theorem expired_at_boundary_witness:
  \<open>atob (js_string (nth_opt (split_on CHR ''.'' ''x.eyJleHAiOjE3MDAwMDAwMDB9.y'') 1))
     = Some ''{"exp":1700000000}'' \<and>
   JSON_parse demo_platform ''{"exp":1700000000}'' = Some (JObj [(''exp'', JNum 1700000000)]) \<and>
   seconds_now demo_platform = 1700000000 \<and>
   verifyJWT demo_platform ''x.eyJleHAiOjE3MDAwMDAwMDB9.y'' = Invalid ''Token expired''\<close>
proof -
  have a: \<open>atob (js_string (nth_opt (split_on CHR ''.'' ''x.eyJleHAiOjE3MDAwMDAwMDB9.y'') 1))
     = Some ''{"exp":1700000000}''\<close> by code_simp
  have b: \<open>JSON_parse demo_platform ''{"exp":1700000000}''
     = Some (JObj [(''exp'', JNum 1700000000)])\<close> by code_simp
  have c: "property (JObj [(''exp'', JNum 1700000000)]) ''exp'' = Some (JNum 1700000000)"
    by simp
  have d: "seconds_now demo_platform = 1700000000" by code_simp
  from expired_at_boundary [OF a b c] d a b show ?thesis by simp
qed

section \<open>The acting guardian stays a guardian\<close>

text \<open>
  C8. When a guardian of a stored family updates it, the update succeeds and the family
  stored afterwards lists the acting user among its guardians: a replacement list is
  stored as given when it contains the acting user, and with the acting user appended
  when it does not; without a replacement list the guardians are unchanged.
\<close>

theorem family_update_keeps_actor:
  assumes "kv_family store familyId = Some fam" and "uid \<in> set (f_guardians fam)"
  shows "\<exists>b store' fam'.
           handleFamilyUpdate now store req familyId uid = (Response 200 b, store') \<and>
           kv_family store' familyId = Some fam' \<and>
           uid \<in> set (f_guardians fam') \<and>
           f_guardians fam' =
             (case fu_guardians req of
                None \<Rightarrow> f_guardians fam
              | Some gs \<Rightarrow> if uid \<in> set gs then gs else gs @ [uid])"
  using assms
  by (auto simp: handleFamilyUpdate_def Let_def split: option.splits)

theorem family_update_keeps_actor_witness:
  "kv_family demo_kv ''f1'' = Some demo_family \<and> ''mum'' \<in> set (f_guardians demo_family) \<and>
   (\<exists>b store' fam'.
      handleFamilyUpdate 9 demo_kv \<lparr> fu_name = None, fu_guardians = Some [''dad''] \<rparr>
        ''f1'' ''mum'' = (Response 200 b, store') \<and>
      kv_family store' ''f1'' = Some fam' \<and>
      ''mum'' \<in> set (f_guardians fam') \<and>
      f_guardians fam' = [''dad'', ''mum''])"
proof -
  have pre: "kv_family demo_kv ''f1'' = Some demo_family"
    "''mum'' \<in> set (f_guardians demo_family)"
    by (simp_all add: demo_kv_def empty_kv_def demo_family_def)
  from family_update_keeps_actor [OF pre, of 9
      "\<lparr> fu_name = None, fu_guardians = Some [''dad''] \<rparr>"] pre
  show ?thesis by simp
qed

section \<open>Location history\<close>

lemma storeLocation_history:
  "storeLocation now store req deviceId location = (r, store') \<Longrightarrow>
   \<exists>h. kv_locationHistory store' deviceId = Some h \<and> length h \<le> 100 \<and> h \<noteq> [] \<and>
       hd h = \<lparr> l_deviceId = deviceId, l_location = location,
                l_timestamp = or_else (lu_timestamp req) (JNum now),
                l_batteryLevel = or_else (lu_batteryLevel req) (JNum 100) \<rparr>"
  by (auto simp: storeLocation_def Let_def)

text \<open>
  C9. After a successful location update (status 200) the history stored for the device
  has at most 100 entries and begins with the entry built from the request just handled.
\<close>

theorem location_history_capped:
  assumes "handleLocationUpdate now store req uid = (Response 200 b, store')"
  shows "\<exists>deviceId location h.
           lu_deviceId req = Some deviceId \<and> lu_location req = Some location \<and>
           kv_locationHistory store' deviceId = Some h \<and>
           length h \<le> 100 \<and> h \<noteq> [] \<and>
           hd h = \<lparr> l_deviceId = deviceId, l_location = location,
                    l_timestamp = or_else (lu_timestamp req) (JNum now),
                    l_batteryLevel = or_else (lu_batteryLevel req) (JNum 100) \<rparr>"
  using assms
  by (auto simp: handleLocationUpdate_def unauthorized_def
           split: option.splits if_splits dest!: storeLocation_history)

theorem location_history_capped_witness:
  "handleLocationUpdate 7 demo_kv demo_update ''kid'' =
     (Response 200 SuccessBody, snd (handleLocationUpdate 7 demo_kv demo_update ''kid'')) \<and>
   (\<exists>h. kv_locationHistory (snd (handleLocationUpdate 7 demo_kv demo_update ''kid'')) ''d1''
           = Some h \<and>
        length h \<le> 100 \<and> h \<noteq> [] \<and>
        hd h = \<lparr> l_deviceId = ''d1'', l_location = JStr ''school'',
                 l_timestamp = JNum 7, l_batteryLevel = JNum 100 \<rparr>)"
proof -
  have run: "handleLocationUpdate 7 demo_kv demo_update ''kid'' =
     (Response 200 SuccessBody, snd (handleLocationUpdate 7 demo_kv demo_update ''kid''))"
    by (simp add: handleLocationUpdate_def storeLocation_def demo_kv_def demo_update_def
          demo_device_def empty_kv_def Let_def)
  from location_history_capped [OF run] show ?thesis
    using run by (simp add: demo_update_def or_else_def)
qed

section \<open>The password hash stays in the store\<close>

text \<open>
  C10. When registration or login answers 200, the body holds a user object and a token;
  the user object is the stored user record without its \<^verbatim>\<open>passwordHash\<close> property, and
  the record stored under the user's email does have that property.
\<close>

theorem password_hash_not_returned:
  "(handleRegister p store req = (Response 200 b, store') \<longrightarrow>
      (\<exists>user tok email stored.
         b = UserTokenBody (JObj user) tok \<and> ''passwordHash'' \<notin> fst ` set user \<and>
         user = obj_rest ''passwordHash'' stored \<and>
         rr_email req = Some email \<and> kv_user store' email = Some (JObj stored) \<and>
         ''passwordHash'' \<in> fst ` set stored)) \<and>
   (handleLogin p lstore lreq = Response 200 b' \<longrightarrow>
      (\<exists>user tok email stored.
         b' = UserTokenBody (JObj user) tok \<and> ''passwordHash'' \<notin> fst ` set user \<and>
         user = obj_rest ''passwordHash'' stored \<and>
         lr_email lreq = Some email \<and> kv_user lstore email = Some (JObj stored) \<and>
         ''passwordHash'' \<in> fst ` set stored))"
proof (intro conjI impI)
  assume "handleRegister p store req = (Response 200 b, store')"
  then show "\<exists>user tok email stored.
         b = UserTokenBody (JObj user) tok \<and> ''passwordHash'' \<notin> fst ` set user \<and>
         user = obj_rest ''passwordHash'' stored \<and>
         rr_email req = Some email \<and> kv_user store' email = Some (JObj stored) \<and>
         ''passwordHash'' \<in> fst ` set stored"
    by (auto simp: handleRegister_def Let_def obj_rest_def split: option.splits if_splits)
next
  assume "handleLogin p lstore lreq = Response 200 b'"
  then show "\<exists>user tok email stored.
         b' = UserTokenBody (JObj user) tok \<and> ''passwordHash'' \<notin> fst ` set user \<and>
         user = obj_rest ''passwordHash'' stored \<and>
         lr_email lreq = Some email \<and> kv_user lstore email = Some (JObj stored) \<and>
         ''passwordHash'' \<in> fst ` set stored"
    by (auto simp: handleLogin_def Let_def invalidLogin_def obj_rest_keys
             split: option.splits if_splits json.splits dest!: map_of_SomeD
             intro: rev_image_eqI)
qed

theorem password_hash_not_returned_witness:
  "fst (handleRegister demo_platform empty_kv demo_register) =
     Response 200 (UserTokenBody
       (JObj [(''id'', JStr ''id9''), (''email'', JStr ''a@b.com''), (''name'', JStr ''Ann''),
              (''role'', JStr ''guardian''), (''createdAt'', JNum 1700000000999)])
       (generateJWT demo_platform
          [(''userId'', JStr ''id9''), (''email'', JStr ''a@b.com''),
           (''role'', JStr ''guardian'')] ExpiresDefault)) \<and>
   kv_user (snd (handleRegister demo_platform empty_kv demo_register)) ''a@b.com'' =
     Some (JObj [(''id'', JStr ''id9''), (''email'', JStr ''a@b.com''), (''name'', JStr ''Ann''),
                 (''role'', JStr ''guardian''), (''passwordHash'', JStr ''#pw''),
                 (''createdAt'', JNum 1700000000999)]) \<and>
   handleLogin demo_platform (snd (handleRegister demo_platform empty_kv demo_register))
       demo_login =
     Response 200 (UserTokenBody
       (JObj [(''id'', JStr ''id9''), (''email'', JStr ''a@b.com''), (''name'', JStr ''Ann''),
              (''role'', JStr ''guardian''), (''createdAt'', JNum 1700000000999)])
       (generateJWT demo_platform
          [(''userId'', JStr ''id9''), (''email'', JStr ''a@b.com''),
           (''role'', JStr ''guardian'')] ExpiresDefault))"
proof -
  let ?reg = "handleRegister demo_platform empty_kv demo_register"
  let ?user = "JObj [(''id'', JStr ''id9''), (''email'', JStr ''a@b.com''), (''name'', JStr ''Ann''),
              (''role'', JStr ''guardian''), (''createdAt'', JNum 1700000000999)]"
  let ?tok = "generateJWT demo_platform
          [(''userId'', JStr ''id9''), (''email'', JStr ''a@b.com''),
           (''role'', JStr ''guardian'')] ExpiresDefault"
  have reg: "fst ?reg = Response 200 (UserTokenBody ?user ?tok)"
    by (simp add: handleRegister_def demo_register_def empty_kv_def demo_platform_def
          obj_rest_def Let_def)
  have stored: "kv_user (snd ?reg) ''a@b.com'' =
     Some (JObj [(''id'', JStr ''id9''), (''email'', JStr ''a@b.com''), (''name'', JStr ''Ann''),
                 (''role'', JStr ''guardian''), (''passwordHash'', JStr ''#pw''),
                 (''createdAt'', JNum 1700000000999)])"
    by (simp add: handleRegister_def demo_register_def empty_kv_def demo_platform_def Let_def)
  have login: "handleLogin demo_platform (snd ?reg) demo_login
      = Response 200 (UserTokenBody ?user ?tok)"
    using stored
    by (simp add: handleLogin_def demo_login_def obj_rest_def obj_literal_def Let_def
          demo_platform_def)
  have reg': "?reg = (Response 200 (UserTokenBody ?user ?tok), snd ?reg)"
    using reg by (simp add: prod_eq_iff)
  from password_hash_not_returned [of demo_platform empty_kv demo_register
      "UserTokenBody ?user ?tok" "snd ?reg" "snd ?reg" demo_login "UserTokenBody ?user ?tok"]
    reg' login stored reg
  show ?thesis by simp
qed

end
